theory Spec2Isabelle
  imports Complex_Main "HOL-Library.Monad_Syntax"
begin

section \<open>Ledger components: data model\<close>

text \<open>
  The repository holds three React components that keep a ledger of dated income and
  expense entries: \<open>MontlyExp\<close> (two copies that differ in markup only) and the smaller
  \<open>FinanceTracker\<close> (\<open>src/components/montlyexp.tsx\<close>), which has no local store.
  The handlers of the components are embedded as functions over an explicit state.

  A JavaScript number is modelled as an exact rational, or \<open>NaN\<close>; the rounding and
  the infinities of IEEE doubles are outside the model. Addition and subtraction
  propagate \<open>NaN\<close> as in the language.
\<close>

datatype jsnum = Num rat | NaN

fun jsadd :: "jsnum \<Rightarrow> jsnum \<Rightarrow> jsnum" where
  "jsadd (Num a) (Num b) = Num (a + b)"
| "jsadd _ _ = NaN"

fun jssub :: "jsnum \<Rightarrow> jsnum \<Rightarrow> jsnum" where
  "jssub (Num a) (Num b) = Num (a - b)"
| "jssub _ _ = NaN"

text \<open>\<open>x || 0\<close> on a number: \<open>NaN\<close> and \<open>0\<close> are falsy, so the result is never \<open>NaN\<close>.\<close>

fun orZero :: "jsnum \<Rightarrow> rat" where
  "orZero (Num q) = (if q = 0 then 0 else q)"
| "orZero NaN = 0"

text \<open>\<open>amount: number | string\<close> of the type \<open>Row\<close>.\<close>

datatype amt = ANum jsnum | AStr string

record row =
  date :: string
  name :: string
  description :: string
  type :: string
  amount :: amt
  balance :: "jsnum option"

definition empty :: row where
  "empty = \<lparr>date = '''', name = '''', description = '''', type = ''OUT'',
             amount = AStr '''', balance = None\<rparr>"

definition LS_KEY :: string where
  "LS_KEY = ''milkdiary_finance_rows_v1''"

subsection \<open>The platform\<close>

text \<open>
  The built-in functions of the language and of the browser that the components call
  are parameters of the model; every theorem below holds for each choice of them.
  \<^item> \<open>Number_str s\<close> is \<open>Number(s)\<close> on a string, \<open>String_num n\<close> is \<open>String(n)\<close> on a number;
  \<^item> \<open>toUpperCase\<close> is \<open>String.prototype.toUpperCase\<close>;
  \<^item> \<open>toLocaleDateString s\<close> is the \<open>en-GB\<close> rendering of \<open>new Date(s)\<close>, \<open>None\<close> when
    the date is invalid;
  \<^item> \<open>JSON_stringify\<close> and \<open>JSON_parse\<close> are \<open>None\<close> where the built-in throws;
  \<^item> \<open>setItem_ok k v\<close> tells whether \<open>localStorage.setItem(k, v)\<close> stores the value
    (it throws when the quota is exceeded).
\<close>

record platform =
  Number_str :: "string \<Rightarrow> jsnum"
  String_num :: "jsnum \<Rightarrow> string"
  toUpperCase :: "string \<Rightarrow> string"
  toLocaleDateString :: "string \<Rightarrow> string option"
  JSON_stringify :: "row list \<Rightarrow> string option"
  JSON_parse :: "string \<Rightarrow> row list option"
  setItem_ok :: "string \<Rightarrow> string \<Rightarrow> bool"

fun Number :: "platform \<Rightarrow> amt \<Rightarrow> jsnum" where
  "Number P (ANum n) = n"
| "Number P (AStr s) = Number_str P s"

fun String :: "platform \<Rightarrow> amt \<Rightarrow> string" where
  "String P (ANum n) = String_num P n"
| "String P (AStr s) = s"

text \<open>\<open>Array.prototype.join\<close> on strings.\<close>

fun join :: "string \<Rightarrow> string list \<Rightarrow> string" where
  "join sep [] = ''''"
| "join sep [x] = x"
| "join sep (x # y # ys) = x @ sep @ join sep (y # ys)"

subsection \<open>Normalization\<close>

text \<open>
  The callback of \<open>data.map\<close> in \<open>fetchData\<close>, with the variable \<open>bal\<close> it updates
  threaded through the list:
  \<^verbatim>\<open>
  let bal = 0;
  const normalized = data.map((r: any) => {
    const amt = Number(r.amount) || 0;
    const type = (r.type || "").toUpperCase();
    if (type === "IN") bal += amt;
    else if (type === "OUT") bal -= amt;
    return { ...r, amount: amt, balance: bal };
  });
  \<close>
  On a string \<open>r.type || ""\<close> is \<open>r.type\<close>. \<open>amt\<close> comes out of \<open>|| 0\<close> and \<open>bal\<close> starts at
  \<open>0\<close>, so neither is ever \<open>NaN\<close> and both are kept as rationals. The three copies of
  the loop in \<open>MontlyExp\<close> and the one in \<open>FinanceTracker\<close> are the same text.
\<close>

fun normalized_from :: "platform \<Rightarrow> rat \<Rightarrow> row list \<Rightarrow> row list" where
  "normalized_from P bal [] = []"
| "normalized_from P bal (r # rs) =
     (let amt = orZero (Number P (amount r));
          ty = toUpperCase P (type r);
          bal' = (if ty = ''IN'' then bal + amt
                  else if ty = ''OUT'' then bal - amt
                  else bal)
      in r\<lparr>amount := ANum (Num amt), balance := Some (Num bal')\<rparr>
         # normalized_from P bal' rs)"

definition normalized :: "platform \<Rightarrow> row list \<Rightarrow> row list" where
  "normalized P data = normalized_from P 0 data"

subsection \<open>Component state and the stores\<close>

text \<open>
  The React state of a component (\<open>form\<close>, \<open>rows\<close>, \<open>submitting\<close>), the browser's
  \<open>localStorage\<close>, the calls of \<open>Swal.fire(title, text, icon)\<close> in the order they are
  made, and \<open>sheet\<close>, the form-data records that the remote store behind \<open>sheetUrl\<close>
  holds.
\<close>

type_synonym alert = "string \<times> string \<times> string"

type_synonym formdata = "(string \<times> string) list"

record state =
  form :: row
  rows :: "row list"
  submitting :: bool
  localStorage :: "string \<rightharpoonup> string"
  fired :: "alert list"
  sheet :: "formdata list"

text \<open>What the endpoint does with a request: the outcome of \<open>fetch\<close> and \<open>res.json()\<close>
  for a read, of \<open>fetch\<close> and \<open>resp.ok\<close> for a write.\<close>

datatype get_response = Answered "row list" | TransportError | ParseError

datatype post_response = Ok | NotOk | Thrown

datatype error = TypeError | FetchRejected | JsonRejected

text \<open>
  Modelled from the spec: the remote store is not part of the repository. It is a
  sink that records a posted entry exactly when it answers the write with an OK
  status; a write that fails records nothing.
\<close>

definition posted :: "post_response \<Rightarrow> formdata \<Rightarrow> formdata list \<Rightarrow> formdata list" where
  "posted resp e store = (if resp = Ok then store @ [e] else store)"

text \<open>\<open>!sheetUrl\<close>: the variable is undefined or the empty string.\<close>

fun unset :: "string option \<Rightarrow> bool" where
  "unset None = True"
| "unset (Some url) = (url = [])"

text \<open>
  \<^verbatim>\<open>
  const persistLocal = (data: Row[]) => {
    try { localStorage.setItem(LS_KEY, JSON.stringify(data)); } catch (e) { /* ignore */ }
  };
  const loadLocal = (): Row[] => {
    try {
      const raw = localStorage.getItem(LS_KEY);
      if (!raw) return [];
      return JSON.parse(raw);
    } catch (e) { return []; }
  };
  \<close>
\<close>

definition persistLocal :: "platform \<Rightarrow> row list \<Rightarrow> state \<Rightarrow> state" where
  "persistLocal P data st =
     (case JSON_stringify P data of
        None \<Rightarrow> st
      | Some s \<Rightarrow>
          if setItem_ok P LS_KEY s
          then st\<lparr>localStorage := (localStorage st)(LS_KEY \<mapsto> s)\<rparr>
          else st)"

definition loadLocal :: "platform \<Rightarrow> state \<Rightarrow> row list" where
  "loadLocal P st =
     (case localStorage st LS_KEY of
        None \<Rightarrow> []
      | Some raw \<Rightarrow>
          if raw = [] then []
          else (case JSON_parse P raw of None \<Rightarrow> [] | Some data \<Rightarrow> data))"

subsection \<open>MontlyExp: load, submit, delete\<close>

text \<open>
  \<open>fetchData\<close> of \<open>MontlyExp\<close>: without an endpoint it reads the local store; with one
  it asks the endpoint, and the \<open>catch\<close> block reads the local store. No path lets an
  exception out, so the result is always \<open>Inr\<close>.
\<close>

definition fetchData ::
  "platform \<Rightarrow> string option \<Rightarrow> get_response \<Rightarrow> state \<Rightarrow> error + state" where
  "fetchData P sheetUrl get st =
     (if unset sheetUrl
      then Inr (st\<lparr>rows := rev (normalized P (loadLocal P st))\<rparr>)
      else (case get of
              Answered data \<Rightarrow> Inr (st\<lparr>rows := rev (normalized P data)\<rparr>)
            | TransportError \<Rightarrow> Inr (st\<lparr>rows := rev (normalized P (loadLocal P st))\<rparr>)
            | ParseError \<Rightarrow> Inr (st\<lparr>rows := rev (normalized P (loadLocal P st))\<rparr>)))"

text \<open>A call \<open>fetchData()\<close> that is not awaited: a rejection leaves the state as it is.\<close>

fun settled :: "state \<Rightarrow> error + state \<Rightarrow> state" where
  "settled st (Inr st') = st'"
| "settled st (Inl e) = st"

text \<open>\<open>r.balance || 0\<close>, and \<open>rows.length ? rows[0].balance || 0 : 0\<close>, which is both
  \<open>lastBalance\<close> and \<open>currentBalance\<close>.\<close>

definition balance_or_0 :: "row \<Rightarrow> rat" where
  "balance_or_0 r = (case balance r of None \<Rightarrow> 0 | Some b \<Rightarrow> orZero b)"

fun currentBalance :: "row list \<Rightarrow> rat" where
  "currentBalance [] = 0"
| "currentBalance (r # rs) = balance_or_0 r"

text \<open>The balance and the row that \<open>handleSubmit\<close> builds from the form.\<close>

definition newBalance :: "platform \<Rightarrow> state \<Rightarrow> jsnum" where
  "newBalance P st =
     (let lastBalance = Num (currentBalance (rows st))
      in if type (form st) = ''IN'' then jsadd lastBalance (Number P (amount (form st)))
         else if type (form st) = ''OUT'' then jssub lastBalance (Number P (amount (form st)))
         else lastBalance)"

definition newRow :: "platform \<Rightarrow> state \<Rightarrow> row" where
  "newRow P st =
     (form st)\<lparr>amount := ANum (Number P (amount (form st))), balance := Some (newBalance P st)\<rparr>"

definition fd :: "platform \<Rightarrow> state \<Rightarrow> formdata" where
  "fd P st =
     [(''date'', date (form st)), (''name'', name (form st)),
      (''description'', description (form st)), (''type'', type (form st)),
      (''amount'', String P (amount (form st))),
      (''balance'', String_num P (newBalance P st))]"

text \<open>The test \<open>!form.date || form.amount === "" || form.amount === 0\<close> that opens
  \<open>handleSubmit\<close> of \<open>MontlyExp\<close>.\<close>

definition required_missing :: "row \<Rightarrow> bool" where
  "required_missing f = (date f = [] \<or> amount f = AStr [] \<or> amount f = ANum (Num 0))"

text \<open>
  \<open>handleSubmit\<close> of \<open>MontlyExp\<close>. \<open>post\<close> is the endpoint's answer to the write and
  \<open>get\<close> its answer to the reload that follows a successful write; neither is
  consulted when no endpoint is configured. \<open>sent\<close> is the state once the write has
  reached the endpoint. The \<open>finally\<close> block resets \<open>submitting\<close> on every path that
  entered the \<open>try\<close>.
\<close>

definition handleSubmit ::
  "platform \<Rightarrow> string option \<Rightarrow> post_response \<Rightarrow> get_response \<Rightarrow> state \<Rightarrow> state" where
  "handleSubmit P sheetUrl post get st =
     (if required_missing (form st)
      then st\<lparr>fired := fired st @ [(''Required'', ''Date & amount are required'', ''warning'')]\<rparr>
      else if unset sheetUrl
      then (let updated = newRow P st # rows st
            in (persistLocal P (rev updated) st)
                 \<lparr>form := empty, rows := updated, submitting := False,
                  fired := fired st @ [(''Saved'', ''Transaction added (local)'', ''success'')]\<rparr>)
      else (let sent = st\<lparr>sheet := posted post (fd P st) (sheet st)\<rparr>
            in case post of
                 Thrown \<Rightarrow>
                   sent\<lparr>submitting := False,
                        fired := fired st @ [(''Error'', ''Something went wrong'', ''error'')]\<rparr>
               | NotOk \<Rightarrow>
                   sent\<lparr>submitting := False,
                        fired := fired st @ [(''Error'', ''Failed to save data'', ''error'')]\<rparr>
               | Ok \<Rightarrow>
                   (let st' = sent\<lparr>form := empty, submitting := False,
                                    fired := fired st @ [(''Saved'', ''Transaction added'', ''success'')]\<rparr>
                    in settled st' (fetchData P sheetUrl get st'))))"

text \<open>
  \<open>handleDelete\<close>. \<open>rows[index]\<close> is undefined when the index is out of range, and
  reading \<open>r.date\<close> for the dialog then throws before anything else happens. The
  answer of the confirmation dialog is the argument \<open>isConfirmed\<close>.
\<close>

definition handleDelete :: "platform \<Rightarrow> nat \<Rightarrow> bool \<Rightarrow> state \<Rightarrow> error + state" where
  "handleDelete P index isConfirmed st =
     (if length (rows st) \<le> index then Inl TypeError
      else if \<not> isConfirmed then Inr st
      else (let updated = take index (rows st) @ drop (index + 1) (rows st)
            in Inr ((persistLocal P (rev updated) st)
                      \<lparr>rows := updated,
                       fired := fired st @ [(''Deleted'', ''Entry removed (local)'', ''success'')]\<rparr>)))"

subsection \<open>MontlyExp: summaries and export\<close>

text \<open>
  \<^verbatim>\<open>
  const totalIn = rows.reduce((s, r) => s + (r.type === "IN" ? Number(r.amount) : 0), 0);
  const totalOut = rows.reduce((s, r) => s + (r.type === "OUT" ? Number(r.amount) : 0), 0);
  \<close>
  The summaries compare \<open>r.type\<close> as it is stored, without the upper-casing of the
  normalization.
\<close>

definition totalIn :: "platform \<Rightarrow> row list \<Rightarrow> jsnum" where
  "totalIn P rs =
     foldl (\<lambda>s r. jsadd s (if type r = ''IN'' then Number P (amount r) else Num 0)) (Num 0) rs"

definition totalOut :: "platform \<Rightarrow> row list \<Rightarrow> jsnum" where
  "totalOut P rs =
     foldl (\<lambda>s r. jsadd s (if type r = ''OUT'' then Number P (amount r) else Num 0)) (Num 0) rs"

text \<open>
  \<open>formatDate\<close> on the string of a row: the empty string is falsy; a string that
  \<open>new Date\<close> cannot read is returned as it is.
\<close>

definition formatDate :: "platform \<Rightarrow> string \<Rightarrow> string" where
  "formatDate P d =
     (if d = [] then []
      else (case toLocaleDateString P d of None \<Rightarrow> d | Some t \<Rightarrow> t))"

definition dquote :: char where
  "dquote = CHR 0x22"

text \<open>\<open>s.replace(/"/g, '""')\<close> and \<open>s.replace(/,$/, '')\<close>.\<close>

fun replace_quotes :: "string \<Rightarrow> string" where
  "replace_quotes [] = []"
| "replace_quotes (c # cs) =
     (if c = dquote then dquote # dquote # replace_quotes cs else c # replace_quotes cs)"

definition replace_final_comma :: "string \<Rightarrow> string" where
  "replace_final_comma s = (if s \<noteq> [] \<and> last s = CHR '','' then butlast s else s)"

text \<open>One text cell of \<open>downloadExcel\<close>: the template literal
  \<^verbatim>\<open>`"${String(x).replace(/"/g, '""')}",`.replace(/,$/, '')\<close>.\<close>

definition cell :: "string \<Rightarrow> string" where
  "cell x = replace_final_comma ([dquote] @ replace_quotes x @ [dquote] @ '','')"

definition headers :: "string list" where
  "headers = [''Date'', ''Name'', ''Description'', ''Type'', ''Amount'', ''Balance'']"

text \<open>\<open>Number(r.balance)\<close> is \<open>NaN\<close> when the row has no balance.\<close>

definition csvRow :: "platform \<Rightarrow> row \<Rightarrow> string" where
  "csvRow P r =
     join '',''
       [cell (formatDate P (date r)), cell (name r), cell (description r), cell (type r),
        String_num P (Number P (amount r)),
        String_num P (case balance r of None \<Rightarrow> NaN | Some b \<Rightarrow> b)]"

text \<open>The text of the blob that \<open>downloadExcel\<close> offers for download.\<close>

definition downloadExcel :: "platform \<Rightarrow> row list \<Rightarrow> string" where
  "downloadExcel P rs = join [CHR 0x0A] (join '','' headers # map (csvRow P) rs)"

subsection \<open>FinanceTracker\<close>

text \<open>
  The component of \<open>src/components/montlyexp.tsx\<close>. It has no local store:
  \<open>fetchData\<close> returns at once without an endpoint and has no \<open>try\<close> around the read,
  so a failed read rejects the promise; \<open>handleSubmit\<close> refuses to work without an
  endpoint and reloads after a successful write; \<open>downloadExcel\<close> joins the fields of
  a row as they are (\<open>join\<close> renders an undefined balance as the empty string).
\<close>

definition FinanceTracker_fetchData ::
  "platform \<Rightarrow> string option \<Rightarrow> get_response \<Rightarrow> state \<Rightarrow> error + state" where
  "FinanceTracker_fetchData P sheetUrl get st =
     (if unset sheetUrl then Inr st
      else (case get of
              TransportError \<Rightarrow> Inl FetchRejected
            | ParseError \<Rightarrow> Inl JsonRejected
            | Answered data \<Rightarrow> Inr (st\<lparr>rows := rev (normalized P data)\<rparr>)))"

text \<open>\<open>!form.amount\<close>: the empty string, \<open>0\<close> and \<open>NaN\<close> are falsy.\<close>

fun falsy :: "amt \<Rightarrow> bool" where
  "falsy (AStr s) = (s = [])"
| "falsy (ANum (Num q)) = (q = 0)"
| "falsy (ANum NaN) = True"

definition FinanceTracker_handleSubmit ::
  "platform \<Rightarrow> string option \<Rightarrow> post_response \<Rightarrow> get_response \<Rightarrow> state \<Rightarrow> state" where
  "FinanceTracker_handleSubmit P sheetUrl post get st =
     (if unset sheetUrl
      then st\<lparr>fired := fired st @ [(''Config Error'', ''Sheet URL missing'', ''warning'')]\<rparr>
      else if date (form st) = [] \<or> falsy (amount (form st))
      then st\<lparr>fired := fired st @ [(''Required'', ''Date & amount are required'', ''warning'')]\<rparr>
      else (let sent = st\<lparr>sheet := posted post (fd P st) (sheet st)\<rparr>
            in case post of
                 Thrown \<Rightarrow>
                   sent\<lparr>submitting := False,
                        fired := fired st @ [(''Error'', ''Something went wrong'', ''error'')]\<rparr>
               | NotOk \<Rightarrow>
                   sent\<lparr>submitting := False,
                        fired := fired st @ [(''Error'', ''Failed to save data'', ''error'')]\<rparr>
               | Ok \<Rightarrow>
                   (let st' = sent\<lparr>form := empty, submitting := False,
                                    fired := fired st @ [(''Saved'', ''Transaction added'', ''success'')]\<rparr>
                    in settled st' (FinanceTracker_fetchData P sheetUrl get st'))))"

definition FinanceTracker_csvRow :: "platform \<Rightarrow> row \<Rightarrow> string" where
  "FinanceTracker_csvRow P r =
     join '',''
       [date r, name r, description r, type r, String P (amount r),
        (case balance r of None \<Rightarrow> [] | Some b \<Rightarrow> String_num P b)]"

definition FinanceTracker_downloadExcel :: "platform \<Rightarrow> row list \<Rightarrow> string" where
  "FinanceTracker_downloadExcel P rs =
     join [CHR 0x0A] (join '','' headers # map (FinanceTracker_csvRow P) rs)"

subsection \<open>A reference platform\<close>

text \<open>
  A small executable platform on which the model is evaluated at concrete inputs.
  The general theorems below hold for every platform; this one serves the examples
  and covers their inputs and no more: integers in decimal notation, ASCII letters,
  dates of the form \<open>YYYY-MM-DD\<close> with a day from 01 to 28 (printed as a browser east
  of Greenwich prints them), and the compact JSON layout that \<open>JSON.stringify\<close> emits
  for rows whose texts are printable ASCII and whose numbers are integers. Outside
  that range its answers are placeholders.
\<close>

definition digit_char :: "nat \<Rightarrow> char" where
  "digit_char d = char_of (48 + d)"

definition is_digit :: "char \<Rightarrow> bool" where
  "is_digit c = (48 \<le> (of_char c :: nat) \<and> (of_char c :: nat) \<le> 57)"

fun show_nat :: "nat \<Rightarrow> nat \<Rightarrow> string" where
  "show_nat 0 n = []"
| "show_nat (Suc fuel) n =
     (if n < 10 then [digit_char n] else show_nat fuel (n div 10) @ [digit_char (n mod 10)])"

definition show_int :: "int \<Rightarrow> string" where
  "show_int i = (if i < 0 then ''-'' @ show_nat (Suc (nat (- i))) (nat (- i))
                 else show_nat (Suc (nat i)) (nat i))"

definition read_nat :: "string \<Rightarrow> nat" where
  "read_nat s = foldl (\<lambda>n c. 10 * n + (of_char c - 48)) 0 s"

definition ref_Number_str :: "string \<Rightarrow> jsnum" where
  "ref_Number_str s =
     (if s = [] then Num 0
      else if list_all is_digit s then Num (of_nat (read_nat s))
      else if hd s = CHR ''-'' \<and> tl s \<noteq> [] \<and> list_all is_digit (tl s)
      then Num (- of_nat (read_nat (tl s)))
      else NaN)"

fun ref_String_num :: "jsnum \<Rightarrow> string" where
  "ref_String_num NaN = ''NaN''"
| "ref_String_num (Num q) =
     (case quotient_of q of (n, d) \<Rightarrow>
        if d = 1 then show_int n else show_int n @ ''/'' @ show_int d)"

definition ref_toUpperCase :: "string \<Rightarrow> string" where
  "ref_toUpperCase s =
     map (\<lambda>c. if 97 \<le> (of_char c :: nat) \<and> (of_char c :: nat) \<le> 122
               then char_of ((of_char c :: nat) - 32) else c) s"

definition months :: "string list" where
  "months = [''Jan'', ''Feb'', ''Mar'', ''Apr'', ''May'', ''Jun'',
             ''Jul'', ''Aug'', ''Sep'', ''Oct'', ''Nov'', ''Dec'']"

definition ref_toLocaleDateString :: "string \<Rightarrow> string option" where
  "ref_toLocaleDateString s =
     (let y = take 4 s; m = take 2 (drop 5 s); d = take 2 (drop 8 s)
      in if length s = 10 \<and> s ! 4 = CHR ''-'' \<and> s ! 7 = CHR ''-''
            \<and> list_all is_digit (y @ m @ d)
            \<and> 1 \<le> read_nat m \<and> read_nat m \<le> 12 \<and> 1 \<le> read_nat d \<and> read_nat d \<le> 28
         then Some (d @ '' '' @ months ! (read_nat m - 1) @ '' '' @ y)
         else None)"

text \<open>The JSON text of a row list.\<close>

definition printable :: "char \<Rightarrow> bool" where
  "printable c = (32 \<le> (of_char c :: nat) \<and> (of_char c :: nat) \<le> 126)"

fun json_escape :: "string \<Rightarrow> string" where
  "json_escape [] = []"
| "json_escape (c # cs) =
     (if c = dquote \<or> c = CHR 0x5C then CHR 0x5C # c # json_escape cs else c # json_escape cs)"

definition json_text :: "string \<Rightarrow> string" where
  "json_text s = [dquote] @ json_escape s @ [dquote]"

definition json_key :: "string \<Rightarrow> string" where
  "json_key k = json_text k @ '':''"

fun whole :: "jsnum \<Rightarrow> bool" where
  "whole NaN = False"
| "whole (Num q) = (snd (quotient_of q) = 1)"

fun amt_ok :: "amt \<Rightarrow> bool" where
  "amt_ok (ANum n) = whole n"
| "amt_ok (AStr s) = list_all printable s"

definition row_ok :: "row \<Rightarrow> bool" where
  "row_ok r = (list_all printable (date r @ name r @ description r @ type r)
               \<and> amt_ok (amount r) \<and> (case balance r of None \<Rightarrow> True | Some b \<Rightarrow> whole b))"

fun json_amt :: "amt \<Rightarrow> string" where
  "json_amt (ANum n) = ref_String_num n"
| "json_amt (AStr s) = json_text s"

definition json_row :: "row \<Rightarrow> string" where
  "json_row r =
     ''{'' @ json_key ''date'' @ json_text (date r) @ '','' @
     json_key ''name'' @ json_text (name r) @ '','' @
     json_key ''description'' @ json_text (description r) @ '','' @
     json_key ''type'' @ json_text (type r) @ '','' @
     json_key ''amount'' @ json_amt (amount r) @
     (case balance r of None \<Rightarrow> [] | Some b \<Rightarrow> '','' @ json_key ''balance'' @ ref_String_num b) @
     ''}''"

definition ref_JSON_stringify :: "row list \<Rightarrow> string option" where
  "ref_JSON_stringify data =
     (if list_all row_ok data then Some (''['' @ join '','' (map json_row data) @ '']'') else None)"

text \<open>The reader of that layout. Each function returns what it read and the rest of
  the text, or \<open>None\<close> where \<open>JSON.parse\<close> throws.\<close>

fun expect :: "string \<Rightarrow> string \<Rightarrow> string option" where
  "expect [] s = Some s"
| "expect (c # cs) [] = None"
| "expect (c # cs) (d # ds) = (if c = d then expect cs ds else None)"

fun read_text_body :: "string \<Rightarrow> (string \<times> string) option" where
  "read_text_body [] = None"
| "read_text_body [c] = (if c = dquote then Some ([], []) else None)"
| "read_text_body (c # e # es) =
     (if c = dquote then Some ([], e # es)
      else if c = CHR 0x5C
      then (if e = dquote \<or> e = CHR 0x5C
            then map_option (\<lambda>(t, rest). (e # t, rest)) (read_text_body es)
            else None)
      else if printable c
      then map_option (\<lambda>(t, rest). (c # t, rest)) (read_text_body (e # es))
      else None)"

definition read_text :: "string \<Rightarrow> (string \<times> string) option" where
  "read_text s = Option.bind (expect [dquote] s) read_text_body"

definition read_number :: "string \<Rightarrow> (jsnum \<times> string) option" where
  "read_number s =
     (let neg = (s \<noteq> [] \<and> hd s = CHR ''-'');
          s1 = (if neg then tl s else s);
          ds = takeWhile is_digit s1
      in if ds = [] \<or> (1 < length ds \<and> hd ds = CHR ''0'') then None
         else Some (Num (if neg then - of_nat (read_nat ds) else of_nat (read_nat ds)),
                    dropWhile is_digit s1))"

definition read_amt :: "string \<Rightarrow> (amt \<times> string) option" where
  "read_amt s =
     (if s \<noteq> [] \<and> hd s = dquote
      then map_option (\<lambda>(t, rest). (AStr t, rest)) (read_text s)
      else map_option (\<lambda>(n, rest). (ANum n, rest)) (read_number s))"

definition read_row :: "string \<Rightarrow> (row \<times> string) option" where
  "read_row s0 = do {
     s1 \<leftarrow> expect (''{'' @ json_key ''date'') s0;
     (d, s2) \<leftarrow> read_text s1;
     s3 \<leftarrow> expect ('','' @ json_key ''name'') s2;
     (n, s4) \<leftarrow> read_text s3;
     s5 \<leftarrow> expect ('','' @ json_key ''description'') s4;
     (e, s6) \<leftarrow> read_text s5;
     s7 \<leftarrow> expect ('','' @ json_key ''type'') s6;
     (t, s8) \<leftarrow> read_text s7;
     s9 \<leftarrow> expect ('','' @ json_key ''amount'') s8;
     (a, s10) \<leftarrow> read_amt s9;
     (case expect ('','' @ json_key ''balance'') s10 of
        Some s11 \<Rightarrow> do {
          (b, s12) \<leftarrow> read_number s11;
          s13 \<leftarrow> expect ''}'' s12;
          Some (\<lparr>date = d, name = n, description = e, type = t, amount = a,
                 balance = Some b\<rparr>, s13) }
      | None \<Rightarrow> do {
          s11 \<leftarrow> expect ''}'' s10;
          Some (\<lparr>date = d, name = n, description = e, type = t, amount = a,
                 balance = None\<rparr>, s11) }) }"

fun read_more :: "nat \<Rightarrow> string \<Rightarrow> row list option" where
  "read_more 0 s = None"
| "read_more (Suc fuel) s =
     (if s = '']'' then Some []
      else do {
        s1 \<leftarrow> expect '','' s;
        (r, s2) \<leftarrow> read_row s1;
        rs \<leftarrow> read_more fuel s2;
        Some (r # rs) })"

definition ref_JSON_parse :: "string \<Rightarrow> row list option" where
  "ref_JSON_parse s =
     (if s = ''[]'' then Some []
      else do {
        s1 \<leftarrow> expect ''['' s;
        (r, s2) \<leftarrow> read_row s1;
        rs \<leftarrow> read_more (length s2) s2;
        Some (r # rs) })"

definition reference :: platform where
  "reference =
     \<lparr>Number_str = ref_Number_str, String_num = ref_String_num,
      toUpperCase = ref_toUpperCase, toLocaleDateString = ref_toLocaleDateString,
      JSON_stringify = ref_JSON_stringify, JSON_parse = ref_JSON_parse,
      setItem_ok = (\<lambda>k v. True)\<rparr>"


subsection \<open>Notions of the specification\<close>

text \<open>
  The signed amount of an entry as the specification words it: the coerced amount
  for type \<open>IN\<close>, its negation for \<open>OUT\<close>, and \<open>0\<close> for any other type, the type being
  compared after upper-casing.
\<close>

definition signedAmount :: "platform \<Rightarrow> row \<Rightarrow> rat" where
  "signedAmount P r =
     (if toUpperCase P (type r) = ''IN'' then orZero (Number P (amount r))
      else if toUpperCase P (type r) = ''OUT'' then - orZero (Number P (amount r))
      else 0)"

text \<open>The raw projection of an annotated entry: the entry without its balance.\<close>

definition raw :: "row \<Rightarrow> row" where
  "raw r = r\<lparr>balance := None\<rparr>"

subsection \<open>Example inputs\<close>

definition entry :: "string \<Rightarrow> string \<Rightarrow> amt \<Rightarrow> row" where
  "entry d t a = \<lparr>date = d, name = [], description = [], type = t, amount = a, balance = None\<rparr>"

definition idle :: state where
  "idle = \<lparr>form = empty, rows = [], submitting = False, localStorage = Map.empty,
           fired = [], sheet = []\<rparr>"

definition endpoint :: "string option" where
  "endpoint = Some ''https://sheet.example/exec''"

text \<open>A component whose form holds the entry \<open>f\<close>, with nothing loaded and nothing stored.\<close>

definition filled :: "row \<Rightarrow> state" where
  "filled f = idle\<lparr>form := f\<rparr>"


text \<open>A newest-first list of three entries.\<close>

definition three :: state where
  "three = idle\<lparr>rows := rev (normalized reference
              [entry ''2025-01-01'' ''IN'' (ANum (Num 100)),
               entry ''2025-01-02'' ''OUT'' (ANum (Num 30)),
               entry ''2025-01-03'' ''IN'' (ANum (Num 5))])\<rparr>"

text \<open>A row whose description holds a comma.\<close>

definition groceries :: row where
  "groceries = \<lparr>date = ''2025-01-02'', name = ''Asha'', description = ''milk, eggs'',
                 type = ''OUT'', amount = ANum (Num 30), balance = Some (Num 70)\<rparr>"

section \<open>Verified properties\<close>

subsection \<open>Normalization is a running sum\<close>

lemma orZero_Num [simp]: "orZero (Num q) = q"
  by simp

lemma length_normalized_from [simp]: "length (normalized_from P b xs) = length xs"
  by (induction xs arbitrary: b) (simp_all add: Let_def)

lemma normalized_from_step:
  "normalized_from P b (r # rs) =
     r\<lparr>amount := ANum (Num (orZero (Number P (amount r)))),
        balance := Some (Num (b + signedAmount P r))\<rparr>
     # normalized_from P (b + signedAmount P r) rs"
  by (simp add: Let_def signedAmount_def)

declare normalized_from.simps(2) [simp del]





subsection \<open>The final balance\<close>


lemma normalized_from_Nil_iff [simp]: "normalized_from P b xs = [] \<longleftrightarrow> xs = []"
  by (cases xs) (simp_all add: normalized_from_step)



lemma foldl_jsadd_Num:
  "foldl (\<lambda>s r. jsadd s (Num (g r))) (Num a) rs = Num (a + sum_list (map g rs))"
  by (induction rs arbitrary: a) (simp_all add: add.assoc)







text \<open>The summaries do not upper-case: an entry stored with type \<open>in\<close> counts for the
  balance and not for \<open>totalIn\<close>.\<close>

lemma summaries_compare_stored_type:
  "currentBalance (rev (normalized reference [entry ''2025-01-01'' ''in'' (ANum (Num 5))])) = 5
   \<and> totalIn reference (rev (normalized reference [entry ''2025-01-01'' ''in'' (ANum (Num 5))])) = Num 0
   \<and> totalOut reference (rev (normalized reference [entry ''2025-01-01'' ''in'' (ANum (Num 5))])) = Num 0"
  by code_simp

subsection \<open>Idempotence\<close>

lemma normalized_from_raw:
  "normalized_from P b (map raw (normalized_from P b xs)) = normalized_from P b xs"
  by (induction xs arbitrary: b) (simp_all add: normalized_from_step raw_def signedAmount_def)

lemma normalized_from_again:
  "normalized_from P b (normalized_from P b xs) = normalized_from P b xs"
  by (induction xs arbitrary: b) (simp_all add: normalized_from_step signedAmount_def)

text \<open>
  C8. Normalization is idempotent: normalizing the raw projection of a normalized
  sequence gives the normalized sequence again, so the same amounts and the same
  balances; the same holds when the balances are left in place.
\<close>

theorem normalized_idempotent:
  "normalized P (map raw (normalized P data)) = normalized P data
   \<and> map amount (normalized P (map raw (normalized P data))) = map amount (normalized P data)
   \<and> map balance (normalized P (map raw (normalized P data))) = map balance (normalized P data)
   \<and> normalized P (normalized P data) = normalized P data"
  by (simp add: normalized_def normalized_from_raw normalized_from_again)

subsection \<open>Submitting an entry\<close>

lemma persistLocal_fields [simp]:
  "rows (persistLocal P data st) = rows st"
  "form (persistLocal P data st) = form st"
  "fired (persistLocal P data st) = fired st"
  "sheet (persistLocal P data st) = sheet st"
  "submitting (persistLocal P data st) = submitting st"
  by (simp_all add: persistLocal_def split: option.split)

lemma handleSubmit_rejection:
  "required_missing (form st) \<Longrightarrow>
   handleSubmit P sheetUrl post get st =
     st\<lparr>fired := fired st @ [(''Required'', ''Date & amount are required'', ''warning'')]\<rparr>"
  by (simp add: handleSubmit_def)








subsection \<open>Validation\<close>

text \<open>
  Every call fires exactly one alert, and the warning of the required fields is fired
  exactly for the forms that the test singles out; nothing but the alert changes then.
\<close>

lemma fired_settled_fetchData [simp]:
  "fired (settled st' (fetchData P sheetUrl get st')) = fired st'"
  by (simp add: fetchData_def split: get_response.split)

lemma handleSubmit_fired:
  "fired (handleSubmit P sheetUrl post get st) =
     fired st @
       [if required_missing (form st) then (''Required'', ''Date & amount are required'', ''warning'')
        else if unset sheetUrl then (''Saved'', ''Transaction added (local)'', ''success'')
        else (case post of
                Ok \<Rightarrow> (''Saved'', ''Transaction added'', ''success'')
              | NotOk \<Rightarrow> (''Error'', ''Failed to save data'', ''error'')
              | Thrown \<Rightarrow> (''Error'', ''Something went wrong'', ''error''))]"
  by (simp add: handleSubmit_def Let_def split: post_response.split)

lemma handleSubmit_rejects_iff:
  "handleSubmit P sheetUrl post get st =
     st\<lparr>fired := fired st @ [(''Required'', ''Date & amount are required'', ''warning'')]\<rparr>
   \<longleftrightarrow> required_missing (form st)"
proof
  assume "required_missing (form st)"
  then show "handleSubmit P sheetUrl post get st =
     st\<lparr>fired := fired st @ [(''Required'', ''Date & amount are required'', ''warning'')]\<rparr>"
    by (simp add: handleSubmit_def)
next
  assume eq: "handleSubmit P sheetUrl post get st =
     st\<lparr>fired := fired st @ [(''Required'', ''Date & amount are required'', ''warning'')]\<rparr>"
  show "required_missing (form st)"
  proof (rule ccontr)
    assume "\<not> required_missing (form st)"
    with handleSubmit_fired [of P sheetUrl post get st] eq show False
      by (cases post) (simp_all split: if_splits)
  qed
qed

text \<open>
  C4. The test of the required fields compares the amount with the empty string and
  with the number \<open>0\<close>. The form holds what the number input delivers, a string, and
  the string \<open>0\<close> is neither: an entry dated 2025-02-01 of type \<open>IN\<close> with amount \<open>0\<close>
  is not rejected. \<open>MontlyExp\<close> without an endpoint appends a row of amount 0 and
  writes it to the local store; \<open>FinanceTracker\<close> posts it to the endpoint.
\<close>

theorem handleSubmit_accepts_zero_text:
  "\<not> required_missing (entry ''2025-02-01'' ''IN'' (AStr ''0''))
   \<and> Number reference (amount (entry ''2025-02-01'' ''IN'' (AStr ''0''))) = Num 0
   \<and> rows (handleSubmit reference None Ok (Answered [])
             (filled (entry ''2025-02-01'' ''IN'' (AStr ''0''))))
       = [entry ''2025-02-01'' ''IN'' (ANum (Num 0))\<lparr>balance := Some (Num 0)\<rparr>]
   \<and> fired (handleSubmit reference None Ok (Answered [])
             (filled (entry ''2025-02-01'' ''IN'' (AStr ''0''))))
       = [(''Saved'', ''Transaction added (local)'', ''success'')]
   \<and> localStorage (handleSubmit reference None Ok (Answered [])
             (filled (entry ''2025-02-01'' ''IN'' (AStr ''0'')))) LS_KEY
       = JSON_stringify reference [entry ''2025-02-01'' ''IN'' (ANum (Num 0))\<lparr>balance := Some (Num 0)\<rparr>]
   \<and> sheet (FinanceTracker_handleSubmit reference endpoint Ok (Answered [])
             (filled (entry ''2025-02-01'' ''IN'' (AStr ''0''))))
       = [[(''date'', ''2025-02-01''), (''name'', []), (''description'', []), (''type'', ''IN''),
           (''amount'', ''0''), (''balance'', ''0'')]]"
  by code_simp

subsection \<open>A failed remote write\<close>

text \<open>
  C5. When an endpoint is configured and the write fails, by a response that is not
  OK or by an exception of \<open>fetch\<close>, an error notification is raised, and the list in
  memory, the form, the local store and the remote store are what they were before;
  \<open>submitting\<close> is reset. This holds for \<open>MontlyExp\<close> and for \<open>FinanceTracker\<close>.
\<close>

theorem failed_remote_write_leaves_no_trace:
  assumes remote: "\<not> unset sheetUrl"
    and failed: "post = NotOk \<or> post = Thrown"
  shows "(\<not> required_missing (form st) \<longrightarrow>
            rows (handleSubmit P sheetUrl post get st) = rows st
          \<and> form (handleSubmit P sheetUrl post get st) = form st
          \<and> localStorage (handleSubmit P sheetUrl post get st) = localStorage st
          \<and> sheet (handleSubmit P sheetUrl post get st) = sheet st
          \<and> \<not> submitting (handleSubmit P sheetUrl post get st)
          \<and> fired (handleSubmit P sheetUrl post get st) =
              fired st @ [(''Error'', if post = NotOk then ''Failed to save data''
                                      else ''Something went wrong'', ''error'')])
       \<and> (date (form st) \<noteq> [] \<and> \<not> falsy (amount (form st)) \<longrightarrow>
            rows (FinanceTracker_handleSubmit P sheetUrl post get st) = rows st
          \<and> form (FinanceTracker_handleSubmit P sheetUrl post get st) = form st
          \<and> localStorage (FinanceTracker_handleSubmit P sheetUrl post get st) = localStorage st
          \<and> sheet (FinanceTracker_handleSubmit P sheetUrl post get st) = sheet st
          \<and> \<not> submitting (FinanceTracker_handleSubmit P sheetUrl post get st)
          \<and> fired (FinanceTracker_handleSubmit P sheetUrl post get st) =
              fired st @ [(''Error'', if post = NotOk then ''Failed to save data''
                                      else ''Something went wrong'', ''error'')])"
  using remote failed
  by (auto simp: handleSubmit_def FinanceTracker_handleSubmit_def posted_def Let_def)

theorem failed_remote_write_leaves_no_trace_witness:
  "\<not> unset endpoint
   \<and> \<not> required_missing (form (filled (entry ''2025-02-01'' ''IN'' (AStr ''50''))))
   \<and> date (form (filled (entry ''2025-02-01'' ''IN'' (AStr ''50'')))) \<noteq> []
   \<and> \<not> falsy (amount (form (filled (entry ''2025-02-01'' ''IN'' (AStr ''50'')))))
   \<and> rows (handleSubmit reference endpoint NotOk (Answered [])
        (filled (entry ''2025-02-01'' ''IN'' (AStr ''50'')))) = []
   \<and> sheet (handleSubmit reference endpoint NotOk (Answered [])
        (filled (entry ''2025-02-01'' ''IN'' (AStr ''50'')))) = []
   \<and> localStorage (handleSubmit reference endpoint NotOk (Answered [])
        (filled (entry ''2025-02-01'' ''IN'' (AStr ''50'')))) LS_KEY = None
   \<and> fired (handleSubmit reference endpoint NotOk (Answered [])
        (filled (entry ''2025-02-01'' ''IN'' (AStr ''50''))))
       = [(''Error'', ''Failed to save data'', ''error'')]
   \<and> fired (FinanceTracker_handleSubmit reference endpoint Thrown (Answered [])
        (filled (entry ''2025-02-01'' ''IN'' (AStr ''50''))))
       = [(''Error'', ''Something went wrong'', ''error'')]"
proof -
  let ?st = "filled (entry ''2025-02-01'' ''IN'' (AStr ''50''))"
  have u: "\<not> unset endpoint"
    by (simp add: endpoint_def)
  have v: "\<not> required_missing (form ?st)" "date (form ?st) \<noteq> []" "\<not> falsy (amount (form ?st))"
    by code_simp+
  have i: "rows ?st = []" "sheet ?st = []" "localStorage ?st LS_KEY = None" "fired ?st = []"
    by (simp_all add: filled_def idle_def)
  show ?thesis
    using failed_remote_write_leaves_no_trace [OF u, of NotOk ?st reference "Answered []"]
          failed_remote_write_leaves_no_trace [OF u, of Thrown ?st reference "Answered []"]
          u v i
    by simp
qed

subsection \<open>Loading with a failing endpoint\<close>




subsection \<open>Deleting an entry\<close>

lemma nth_remove_at:
  "index < length xs \<Longrightarrow> j < length xs - 1 \<Longrightarrow>
   (take index xs @ drop (index + 1) xs) ! j = (if j < index then xs ! j else xs ! Suc j)"
  by (simp add: nth_append min_def)

text \<open>
  C7. For an index inside the newest-first list: when the dialog is declined the
  state is unchanged, so nothing is removed and nothing is persisted. When it is
  confirmed, the list loses exactly the entry at that index, the others keeping their
  order, and \<open>persistLocal\<close> is given the remaining entries reversed, that is in
  chronological order; where the write succeeds the stored text is their
  serialization.
\<close>

theorem handleDelete_removes_and_persists:
  assumes inside: "index < length (rows st)"
  shows "handleDelete P index False st = Inr st
    \<and> (\<exists>st'. handleDelete P index True st = Inr st'
          \<and> length (rows st') = length (rows st) - 1
          \<and> (\<forall>j < length (rows st').
                rows st' ! j = (if j < index then rows st ! j else rows st ! Suc j))
          \<and> localStorage st' = localStorage (persistLocal P (rev (rows st')) st)
          \<and> (\<forall>s. JSON_stringify P (rev (rows st')) = Some s \<and> setItem_ok P LS_KEY s \<longrightarrow>
                localStorage st' LS_KEY = Some s)
          \<and> form st' = form st \<and> sheet st' = sheet st
          \<and> fired st' = fired st @ [(''Deleted'', ''Entry removed (local)'', ''success'')])"
proof -
  let ?updated = "take index (rows st) @ drop (index + 1) (rows st)"
  let ?st' = "(persistLocal P (rev ?updated) st)
                \<lparr>rows := ?updated,
                 fired := fired st @ [(''Deleted'', ''Entry removed (local)'', ''success'')]\<rparr>"
  have no: "handleDelete P index False st = Inr st"
    using inside by (simp add: handleDelete_def)
  have yes: "handleDelete P index True st = Inr ?st'"
    using inside by (simp add: handleDelete_def Let_def)
  have len: "length (rows ?st') = length (rows st) - 1"
    using inside by simp
  have nth: "\<forall>j < length (rows ?st'). rows ?st' ! j = (if j < index then rows st ! j else rows st ! Suc j)"
    using inside nth_remove_at [OF inside] by simp
  have sto: "localStorage ?st' = localStorage (persistLocal P (rev (rows ?st')) st)"
    by simp
  have wr: "\<forall>s. JSON_stringify P (rev (rows ?st')) = Some s \<and> setItem_ok P LS_KEY s \<longrightarrow>
                localStorage ?st' LS_KEY = Some s"
    by (simp add: persistLocal_def)
  have rest: "form ?st' = form st \<and> sheet ?st' = sheet st
      \<and> fired ?st' = fired st @ [(''Deleted'', ''Entry removed (local)'', ''success'')]"
    by simp
  from no yes len nth sto wr rest show ?thesis
    by blast
qed

theorem handleDelete_removes_and_persists_witness:
  "(1::nat) < length (rows three)
   \<and> handleDelete reference 1 False three = Inr three
   \<and> (\<exists>st'. handleDelete reference 1 True three = Inr st'
         \<and> length (rows st') = 2
         \<and> rows st' ! 0 = rows three ! 0 \<and> rows st' ! 1 = rows three ! 2)
   \<and> map date (rows (settled three (handleDelete reference 1 True three)))
       = [''2025-01-03'', ''2025-01-01'']
   \<and> map_option (map date)
        (Option.bind (localStorage (settled three (handleDelete reference 1 True three)) LS_KEY)
           (JSON_parse reference))
       = Some [''2025-01-01'', ''2025-01-03'']"
proof -
  have len: "length (rows three) = 3"
    by code_simp
  then have inside: "1 < length (rows three)"
    by simp
  have shown: "map date (rows (settled three (handleDelete reference 1 True three)))
       = [''2025-01-03'', ''2025-01-01'']"
    by code_simp
  have stored: "map_option (map date)
        (Option.bind (localStorage (settled three (handleDelete reference 1 True three)) LS_KEY)
           (JSON_parse reference))
       = Some [''2025-01-01'', ''2025-01-03'']"
    by code_simp
  from handleDelete_removes_and_persists [OF inside, of reference]
  obtain st' where no: "handleDelete reference 1 False three = Inr three"
    and yes: "handleDelete reference 1 True three = Inr st'"
    and l: "length (rows st') = length (rows three) - 1"
    and n: "\<forall>j < length (rows st'). rows st' ! j = (if j < 1 then rows three ! j else rows three ! Suc j)"
    by blast
  from l len have l2: "length (rows st') = 2"
    by simp
  from n l2 have "rows st' ! 0 = rows three ! 0" "rows st' ! 1 = rows three ! 2"
    by (simp_all add: numeral_2_eq_2)
  with inside no yes l2 shown stored show ?thesis
    by blast
qed

subsection \<open>Export\<close>

lemma replace_final_comma_snoc [simp]: "replace_final_comma (s @ '','') = s"
  by (simp add: replace_final_comma_def)

lemma cell_is_quoted: "cell x = [dquote] @ replace_quotes x @ [dquote]"
proof -
  have "[dquote] @ replace_quotes x @ [dquote] @ '','' = ([dquote] @ replace_quotes x @ [dquote]) @ '',''"
    by simp
  then show ?thesis
    unfolding cell_def by (simp only: replace_final_comma_snoc)
qed

lemma replace_quotes_doubles:
  "replace_quotes x = concat (map (\<lambda>c. if c = dquote then [dquote, dquote] else [c]) x)"
  by (induction x) simp_all

text \<open>
  The export of \<open>MontlyExp\<close>: the header line, then one line per row with the four
  text fields between double quotes, the quotes inside them doubled, and the two
  numbers as \<open>String\<close> prints them.
\<close>

lemma downloadExcel_quotes_text_fields:
  "downloadExcel P rs =
     join [CHR 0x0A]
       (''Date,Name,Description,Type,Amount,Balance''
        # map (\<lambda>r. [dquote] @ replace_quotes (formatDate P (date r)) @ [dquote] @ '','' @
                    [dquote] @ replace_quotes (name r) @ [dquote] @ '','' @
                    [dquote] @ replace_quotes (description r) @ [dquote] @ '','' @
                    [dquote] @ replace_quotes (type r) @ [dquote] @ '','' @
                    String_num P (Number P (amount r)) @ '','' @
                    String_num P (case balance r of None \<Rightarrow> NaN | Some b \<Rightarrow> b)) rs)"
proof -
  have "csvRow P =
     (\<lambda>r. [dquote] @ replace_quotes (formatDate P (date r)) @ [dquote] @ '','' @
          [dquote] @ replace_quotes (name r) @ [dquote] @ '','' @
          [dquote] @ replace_quotes (description r) @ [dquote] @ '','' @
          [dquote] @ replace_quotes (type r) @ [dquote] @ '','' @
          String_num P (Number P (amount r)) @ '','' @
          String_num P (case balance r of None \<Rightarrow> NaN | Some b \<Rightarrow> b))"
    by (rule ext) (simp add: csvRow_def cell_is_quoted)
  then show ?thesis
    by (simp add: downloadExcel_def headers_def)
qed

text \<open>
  C9. The export of \<open>FinanceTracker\<close> joins the fields of a row with commas as they
  are. For a row whose description is \<open>milk, eggs\<close> the line has seven fields and no
  quotes, where the export of \<open>MontlyExp\<close> gives six fields with the texts quoted.
\<close>

theorem FinanceTracker_downloadExcel_unquoted:
  "FinanceTracker_downloadExcel reference [groceries] =
     ''Date,Name,Description,Type,Amount,Balance'' @ [CHR 0x0A] @
     ''2025-01-02,Asha,milk, eggs,OUT,30,70''
   \<and> downloadExcel reference [groceries] =
     ''Date,Name,Description,Type,Amount,Balance'' @ [CHR 0x0A] @
     [dquote] @ ''02 Jan 2025'' @ [dquote] @ '','' @ [dquote] @ ''Asha'' @ [dquote] @ '','' @
     [dquote] @ ''milk, eggs'' @ [dquote] @ '','' @ [dquote] @ ''OUT'' @ [dquote] @ '',30,70''"
  by code_simp

subsection \<open>The local store\<close>




end
